theory Spec2Isabelle
  imports Complex_Main "HOL-Library.Log_Nat" "HOL-Library.AList"
begin

section \<open>JavaScript values used by main.js\<close>

subsection \<open>Numbers\<close>

text \<open>
  A JavaScript number is an IEEE 754 double. The model keeps the value of a finite double
  as a rational and rounds the exact result of every arithmetic operation to the nearest
  double (ties to even), so rounding drift and overflow are part of the model. The two
  zeros are identified: main.js compares numbers, and where it divides, the divisor is
  positive (a total tested to be positive, or the length of an array that is not empty),
  so no result stated here depends on the sign of a zero.
\<close>

datatype jsnum = NaN | PosInfinity | NegInfinity | Finite rat

text \<open>\<open>ilog2 x\<close> is the binary exponent of \<open>x \<noteq> 0\<close>: \<open>2 powi ilog2 x \<le> \<bar>x\<bar> < 2 powi (ilog2 x + 1)\<close>.\<close>

definition ilog2 :: "rat \<Rightarrow> int" where
  "ilog2 x = (let (p, q) = quotient_of \<bar>x\<bar>; d = bitlen p - bitlen q
              in if 2 powi d \<le> \<bar>x\<bar> then d else d - 1)"

definition round_even :: "rat \<Rightarrow> int" where
  "round_even x = (let f = \<lfloor>x\<rfloor>; d = x - of_int f
                   in if d < 1 / 2 then f
                      else if 1 / 2 < d then f + 1
                      else if even f then f else f + 1)"

text \<open>
  Rounding to a double: 53 significant bits, the least exponent of the last place being
  \<open>-1074\<close> (subnormal numbers). The rounded value is \<open>m * 2 powi e\<close> with
  \<open>\<bar>m\<bar> \<le> 2 ^ 53\<close>; it has reached \<open>2 ^ 1024\<close>, and is an infinity, exactly when
  \<open>e + bitlen \<bar>m\<bar>\<close> exceeds 1024.
\<close>

definition round_double :: "rat \<Rightarrow> jsnum" where
  "round_double x =
     (if x = 0 then Finite 0
      else let e = max (ilog2 x - 52) (- 1074);
               m = round_even (x / 2 powi e)
           in if 1024 < e + bitlen \<bar>m\<bar> then (if x < 0 then NegInfinity else PosInfinity)
              else Finite (of_int m * 2 powi e))"

fun jsneg :: "jsnum \<Rightarrow> jsnum" where
  "jsneg NaN = NaN"
| "jsneg PosInfinity = NegInfinity"
| "jsneg NegInfinity = PosInfinity"
| "jsneg (Finite a) = Finite (- a)"

text \<open>\<open>a + b\<close>\<close>

fun jsadd :: "jsnum \<Rightarrow> jsnum \<Rightarrow> jsnum" where
  "jsadd NaN b = NaN"
| "jsadd a NaN = NaN"
| "jsadd PosInfinity NegInfinity = NaN"
| "jsadd NegInfinity PosInfinity = NaN"
| "jsadd PosInfinity b = PosInfinity"
| "jsadd NegInfinity b = NegInfinity"
| "jsadd a PosInfinity = PosInfinity"
| "jsadd a NegInfinity = NegInfinity"
| "jsadd (Finite a) (Finite b) = round_double (a + b)"

text \<open>\<open>a - b\<close>\<close>

definition jssub :: "jsnum \<Rightarrow> jsnum \<Rightarrow> jsnum" where
  "jssub a b = jsadd a (jsneg b)"

text \<open>\<open>a * b\<close>\<close>

fun jsmul :: "jsnum \<Rightarrow> jsnum \<Rightarrow> jsnum" where
  "jsmul NaN b = NaN"
| "jsmul a NaN = NaN"
| "jsmul (Finite a) (Finite b) = round_double (a * b)"
| "jsmul (Finite a) PosInfinity =
     (if a = 0 then NaN else if a < 0 then NegInfinity else PosInfinity)"
| "jsmul (Finite a) NegInfinity =
     (if a = 0 then NaN else if a < 0 then PosInfinity else NegInfinity)"
| "jsmul PosInfinity (Finite b) =
     (if b = 0 then NaN else if b < 0 then NegInfinity else PosInfinity)"
| "jsmul NegInfinity (Finite b) =
     (if b = 0 then NaN else if b < 0 then PosInfinity else NegInfinity)"
| "jsmul PosInfinity PosInfinity = PosInfinity"
| "jsmul PosInfinity NegInfinity = NegInfinity"
| "jsmul NegInfinity PosInfinity = NegInfinity"
| "jsmul NegInfinity NegInfinity = PosInfinity"

text \<open>
  \<open>a / b\<close>. A zero divisor is read as \<open>+0\<close>; every division of main.js is guarded by
  a test that its divisor is positive.
\<close>

fun jsdiv :: "jsnum \<Rightarrow> jsnum \<Rightarrow> jsnum" where
  "jsdiv NaN b = NaN"
| "jsdiv a NaN = NaN"
| "jsdiv (Finite a) (Finite b) =
     (if b = 0 then (if a = 0 then NaN else if a < 0 then NegInfinity else PosInfinity)
      else round_double (a / b))"
| "jsdiv (Finite a) PosInfinity = Finite 0"
| "jsdiv (Finite a) NegInfinity = Finite 0"
| "jsdiv PosInfinity (Finite b) = (if b < 0 then NegInfinity else PosInfinity)"
| "jsdiv NegInfinity (Finite b) = (if b < 0 then PosInfinity else NegInfinity)"
| "jsdiv PosInfinity PosInfinity = NaN"
| "jsdiv PosInfinity NegInfinity = NaN"
| "jsdiv NegInfinity PosInfinity = NaN"
| "jsdiv NegInfinity NegInfinity = NaN"

text \<open>\<open>a > b\<close> and \<open>a == b\<close> on numbers: both are false when an operand is \<open>NaN\<close>.\<close>

fun jsgt :: "jsnum \<Rightarrow> jsnum \<Rightarrow> bool" where
  "jsgt NaN b = False"
| "jsgt a NaN = False"
| "jsgt (Finite a) (Finite b) = (b < a)"
| "jsgt PosInfinity b = (b \<noteq> PosInfinity)"
| "jsgt a NegInfinity = (a \<noteq> NegInfinity)"
| "jsgt NegInfinity b = False"
| "jsgt a PosInfinity = False"

fun jseq :: "jsnum \<Rightarrow> jsnum \<Rightarrow> bool" where
  "jseq NaN b = False"
| "jseq a NaN = False"
| "jseq a b = (a = b)"

text \<open>
  \<open>x.toFixed(f)\<close> returns a string. \<open>StrNaN\<close> is \<open>"NaN"\<close>; \<open>StrLarge x\<close> is the
  string \<open>String(x)\<close> that \<open>toFixed\<close> returns for an infinity and for \<open>\<bar>x\<bar> \<ge> 10^21\<close>;
  \<open>StrDecimal neg n f\<close> is the decimal numeral of \<open>n / 10 ^ f\<close> with exactly \<open>f\<close>
  fraction digits, after a minus sign when \<open>neg\<close>. \<open>n\<close> is the integer nearest
  to \<open>\<bar>x\<bar> * 10 ^ f\<close>, the larger one of two.
\<close>

datatype numstr = StrNaN | StrLarge jsnum | StrDecimal bool nat nat

fun toFixed :: "nat \<Rightarrow> jsnum \<Rightarrow> numstr" where
  "toFixed f NaN = StrNaN"
| "toFixed f PosInfinity = StrLarge PosInfinity"
| "toFixed f NegInfinity = StrLarge NegInfinity"
| "toFixed f (Finite x) =
     (if 10 ^ 21 \<le> \<bar>x\<bar> then StrLarge (Finite x)
      else StrDecimal (x < 0) (nat \<lfloor>\<bar>x\<bar> * 10 ^ f + 1 / 2\<rfloor>) f)"

text \<open>The number a string of \<open>toFixed\<close> denotes, where it denotes a finite one.\<close>

fun numstr_value :: "numstr \<Rightarrow> rat option" where
  "numstr_value StrNaN = None"
| "numstr_value (StrLarge (Finite x)) = Some x"
| "numstr_value (StrLarge _) = None"
| "numstr_value (StrDecimal neg n f) =
     Some ((if neg then - 1 else 1) * of_nat n / 10 ^ f)"

text \<open>A value that is a number or such a string (\<open>cond ? x.toFixed(1) : 0\<close>).\<close>

datatype jsval = Number jsnum | FixedString numstr

subsection \<open>Strings\<close>

text \<open>
  Strings are lists of 8-bit characters standing for the code units below \<open>U+0100\<close>.
  The upper-case form of such a string can leave that range, so \<open>toUpperCase\<close> yields a
  list of code units, each a number: \<open>code_units\<close> is that list for a string as it is.

  \<open>s.toUpperCase()\<close> takes the upper-case mapping of the Unicode character database
  for every code point, without regard to the locale. For the code points below
  \<open>U+0100\<close> these are: the letters \<open>a\<close> to \<open>z\<close> and the letters \<open>U+00E0\<close> to \<open>U+00FE\<close>
  other than the division sign \<open>U+00F7\<close> go 32 down; the micro sign \<open>U+00B5\<close> becomes
  the Greek capital letter mu \<open>U+039C\<close>; the sharp s \<open>U+00DF\<close> becomes the two letters
  \<open>SS\<close>; the y with diaeresis \<open>U+00FF\<close> becomes \<open>U+0178\<close>; every other code point stays.
\<close>

definition code_units :: "string \<Rightarrow> nat list" where
  "code_units s = map of_char s"

definition toUpperCase_char :: "char \<Rightarrow> nat list" where
  "toUpperCase_char c =
     (let n = (of_char c :: nat) in
      if 97 \<le> n \<and> n \<le> 122 then [n - 32]
      else if n = 181 then [924]
      else if n = 223 then [83, 83]
      else if 224 \<le> n \<and> n \<le> 254 \<and> n \<noteq> 247 then [n - 32]
      else if n = 255 then [376]
      else [n])"

definition toUpperCase :: "string \<Rightarrow> nat list" where
  "toUpperCase s = concat (map toUpperCase_char s)"

text \<open>\<open>s.replace(a, b)\<close> with a one-character string pattern: the first occurrence only.\<close>

fun replace :: "char \<Rightarrow> char \<Rightarrow> string \<Rightarrow> string" where
  "replace a b [] = []"
| "replace a b (c # cs) = (if c = a then b # cs else c # replace a b cs)"

definition is_digit :: "char \<Rightarrow> bool" where
  "is_digit c = (48 \<le> (of_char c :: nat) \<and> (of_char c :: nat) \<le> 57)"

definition digit_val :: "char \<Rightarrow> nat" where
  "digit_val c = of_char c - 48"

definition digits_val :: "string \<Rightarrow> nat" where
  "digits_val s = foldl (\<lambda>n c. 10 * n + digit_val c) 0 s"

text \<open>
  \<open>String(n)\<close> for a non-negative integer \<open>n\<close> below \<open>10^21\<close>: its decimal digits.
\<close>

fun String_of_nat :: "nat \<Rightarrow> string" where
  "String_of_nat n =
     (if n < 10 then [char_of (48 + n)]
      else String_of_nat (n div 10) @ [char_of (48 + n mod 10)])"

declare String_of_nat.simps [simp del]

text \<open>White space and line terminators among the code units below \<open>U+0100\<close>.\<close>

definition is_space :: "char \<Rightarrow> bool" where
  "is_space c = ((of_char c :: nat) \<in> {9, 10, 11, 12, 13, 32, 160})"

text \<open>
  The longest prefix of a string that is a \<open>StrDecimalLiteral\<close>
  (\<open>[+-] (Infinity | digits [. [digits]] [exp] | . digits [exp])\<close>), as a number, and the
  rest of the string; \<open>None\<close> when no prefix is one.
\<close>

definition exponent_part :: "string \<Rightarrow> int \<times> string" where
  "exponent_part s =
     (case s of
        [] \<Rightarrow> (0, s)
      | c # r \<Rightarrow>
          if c = CHR ''e'' \<or> c = CHR ''E'' then
            (let (neg, r1) =
                   (case r of
                      [] \<Rightarrow> (False, r)
                    | d # r' \<Rightarrow>
                        if d = CHR ''-'' then (True, r')
                        else if d = CHR ''+'' then (False, r') else (False, r));
                 ds = takeWhile is_digit r1
             in if ds = [] then (0, s)
                else ((if neg then - int (digits_val ds) else int (digits_val ds)),
                      dropWhile is_digit r1))
          else (0, s))"

definition unsigned_decimal :: "string \<Rightarrow> (rat \<times> string) option" where
  "unsigned_decimal s =
     (let ip = takeWhile is_digit s; r1 = dropWhile is_digit s;
          (fp, r2) =
            (case r1 of
               [] \<Rightarrow> ([], r1)
             | c # r \<Rightarrow>
                 if c = CHR ''.'' \<and> (ip \<noteq> [] \<or> takeWhile is_digit r \<noteq> [])
                 then (takeWhile is_digit r, dropWhile is_digit r) else ([], r1))
      in if ip = [] \<and> fp = [] then None
         else let (ex, r3) = exponent_part r2
              in Some (of_nat (digits_val (ip @ fp)) / 10 ^ length fp * 10 powi ex, r3))"

definition decimal_literal :: "string \<Rightarrow> (jsnum \<times> string) option" where
  "decimal_literal s =
     (let (neg, u) =
            (case s of
               [] \<Rightarrow> (False, s)
             | c # r \<Rightarrow>
                 if c = CHR ''-'' then (True, r)
                 else if c = CHR ''+'' then (False, r) else (False, s))
      in if take 8 u = ''Infinity''
         then Some (if neg then NegInfinity else PosInfinity, drop 8 u)
         else (case unsigned_decimal u of
                 None \<Rightarrow> None
               | Some (x, r) \<Rightarrow> Some (round_double (if neg then - x else x), r)))"

text \<open>\<open>parseFloat(s)\<close>\<close>

definition parseFloat :: "string \<Rightarrow> jsnum" where
  "parseFloat s =
     (case decimal_literal (dropWhile is_space s) of
        None \<Rightarrow> NaN
      | Some (x, r) \<Rightarrow> x)"

text \<open>
  \<open>Number(s)\<close>, the conversion behind \<open>n == s\<close> for a number and a string: white space
  is trimmed at both ends, the empty string is 0, and the whole of the rest must be a
  decimal literal or a \<open>0x\<close>, \<open>0o\<close> or \<open>0b\<close> integer literal.
\<close>

definition radix_digit :: "char \<Rightarrow> nat option" where
  "radix_digit c =
     (let n = (of_char c :: nat)
      in if 48 \<le> n \<and> n \<le> 57 then Some (n - 48)
         else if 97 \<le> n \<and> n \<le> 102 then Some (n - 87)
         else if 65 \<le> n \<and> n \<le> 70 then Some (n - 55)
         else None)"

definition radix_literal :: "nat \<Rightarrow> string \<Rightarrow> jsnum" where
  "radix_literal b s =
     (if s \<noteq> [] \<and> list_all (\<lambda>c. case radix_digit c of None \<Rightarrow> False | Some d \<Rightarrow> d < b) s
      then round_double (of_nat (foldl (\<lambda>n c. b * n + the (radix_digit c)) 0 s))
      else NaN)"

definition StringToNumber :: "string \<Rightarrow> jsnum" where
  "StringToNumber s =
     (let t = rev (dropWhile is_space (rev (dropWhile is_space s)))
      in if t = [] then Finite 0
         else if take 2 t = ''0x'' \<or> take 2 t = ''0X'' then radix_literal 16 (drop 2 t)
         else if take 2 t = ''0o'' \<or> take 2 t = ''0O'' then radix_literal 8 (drop 2 t)
         else if take 2 t = ''0b'' \<or> take 2 t = ''0B'' then radix_literal 2 (drop 2 t)
         else (case decimal_literal t of
                 Some (x, []) \<Rightarrow> x
               | _ \<Rightarrow> NaN))"

text \<open>\<open>n == s\<close> for a number \<open>n\<close> and a string \<open>s\<close>.\<close>

definition loose_eq :: "nat \<Rightarrow> string \<Rightarrow> bool" where
  "loose_eq n s = jseq (Finite (of_nat n)) (StringToNumber s)"

section \<open>The data of main.js\<close>

text \<open>
  The objects of the arrays \<open>violations\<close>, \<open>violationTypes\<close> and \<open>areas\<close>. The keys of
  a violation type and of an area are prefixed (\<open>t_\<close>, \<open>a_\<close>) where main.js uses the name
  of a key of a violation again. Identifiers and base fines are non-negative integers, as
  in \<open>loadViolationTypes\<close>, \<open>loadAreas\<close> and \<open>loadViolations\<close>; a fine amount is any
  number, since \<open>registerViolation\<close> stores what \<open>parseFloat\<close> makes of a form field; and
  a vehicle number is a list of code units, since \<open>registerViolation\<close> stores what
  \<open>toUpperCase\<close> makes of a form field.
\<close>

record violation =
  violation_id :: nat
  vehicle_number :: "nat list"
  owner_name :: string
  type_name :: string
  area_name :: string
  violation_date :: string
  fine_amount :: jsnum
  status :: string

record violation_type =
  type_id :: nat
  t_type_name :: string
  base_fine :: nat

record area =
  area_id :: nat
  a_area_name :: string
  city :: string

record user =
  username :: string
  role :: string

text \<open>A row of the table \<open>payments\<close> of database.sql.\<close>

record payment =
  payment_id :: nat
  p_violation_id :: nat
  payment_date :: string
  amount_paid :: rat
  payment_method :: string
  transaction_id :: "string option"

text \<open>
  The object \<open>formData\<close> of \<open>registerViolation\<close>: six strings read from the form.
\<close>

record formData =
  f_vehicle_number :: string
  f_type_id :: string
  f_area_id :: string
  f_violation_date :: string
  f_fine_amount :: string
  f_notes :: string

text \<open>
  A property of the counting objects \<open>areaStats\<close> and \<open>typeStats\<close> holds a count, or
  a string that is no numeral: what \<open>(stats[k] || 0) + 1\<close> yields when \<open>k\<close> names a
  property inherited from \<open>Object.prototype\<close>.
\<close>

datatype stat = Count nat | Garbage

text \<open>
  The document. HTML is not part of the sources, so the document is part of the state:
  form controls by element id, each with its value and the default that \<open>reset()\<close>
  restores; forms by element id, each with the ids of its controls; and the other
  elements by element id, each with what was last written to it. What main.js writes as
  markup is kept as the data the markup is built from.
\<close>

record control =
  control_value :: string
  control_default :: string

datatype action = MarkPaidButton nat | NoAction

datatype content =
    Text string
  | Percent jsval
  | Currency jsval
  | RecentRows "violation list"
  | TableRows "(violation \<times> action) list"
  | Bars "(string \<times> stat \<times> numstr) list"
  | AlertBox string string

text \<open>
  The state: the four global variables of main.js and the document. The table
  \<open>payments\<close> of database.sql is the only collection of payments in the repository; it
  is carried along to state what main.js does to it.
\<close>

record state =
  currentUser :: "user option"
  violations :: "violation list"
  violationTypes :: "violation_type list"
  areas :: "area list"
  controls :: "string \<rightharpoonup> control"
  forms :: "string \<rightharpoonup> string list"
  elements :: "string \<rightharpoonup> content"
  payments :: "payment list"

datatype outcome = Returned | TypeError

subsection \<open>Mock data (\<open>loadViolationTypes\<close>, \<open>loadAreas\<close>, \<open>loadViolations\<close>)\<close>

definition mock_violationTypes :: "violation_type list" where
  "mock_violationTypes =
     [\<lparr>type_id = 1, t_type_name = ''Speeding'', base_fine = 500\<rparr>,
      \<lparr>type_id = 2, t_type_name = ''Red Light Violation'', base_fine = 1000\<rparr>,
      \<lparr>type_id = 3, t_type_name = ''No Helmet'', base_fine = 300\<rparr>,
      \<lparr>type_id = 4, t_type_name = ''Wrong Parking'', base_fine = 200\<rparr>,
      \<lparr>type_id = 5, t_type_name = ''DUI'', base_fine = 5000\<rparr>,
      \<lparr>type_id = 6, t_type_name = ''No Seat Belt'', base_fine = 500\<rparr>,
      \<lparr>type_id = 7, t_type_name = ''Mobile Phone Usage'', base_fine = 750\<rparr>]"

definition mock_areas :: "area list" where
  "mock_areas =
     [\<lparr>area_id = 1, a_area_name = ''MG Road'', city = ''Bangalore''\<rparr>,
      \<lparr>area_id = 2, a_area_name = ''Connaught Place'', city = ''Delhi''\<rparr>,
      \<lparr>area_id = 3, a_area_name = ''Marine Drive'', city = ''Mumbai''\<rparr>,
      \<lparr>area_id = 4, a_area_name = ''Anna Salai'', city = ''Chennai''\<rparr>,
      \<lparr>area_id = 5, a_area_name = ''Park Street'', city = ''Kolkata''\<rparr>]"

definition mock_violations :: "violation list" where
  "mock_violations =
     [\<lparr>violation_id = 1, vehicle_number = code_units ''KA01AB1234'', owner_name = ''John Doe'',
       type_name = ''Speeding'', area_name = ''MG Road'',
       violation_date = ''2025-01-15 10:30'', fine_amount = Finite 500, status = ''paid''\<rparr>,
      \<lparr>violation_id = 2, vehicle_number = code_units ''DL02CD5678'', owner_name = ''Jane Smith'',
       type_name = ''Red Light Violation'', area_name = ''Connaught Place'',
       violation_date = ''2025-01-14 14:45'', fine_amount = Finite 1000, status = ''unpaid''\<rparr>,
      \<lparr>violation_id = 3, vehicle_number = code_units ''MH03EF9012'', owner_name = ''Mike Brown'',
       type_name = ''No Helmet'', area_name = ''Marine Drive'',
       violation_date = ''2025-01-13 09:15'', fine_amount = Finite 300, status = ''paid''\<rparr>]"

section \<open>Utility functions\<close>

text \<open>\<open>getValue(elementId)\<close>\<close>

definition getValue :: "string \<Rightarrow> state \<Rightarrow> string" where
  "getValue elementId s =
     (case controls s elementId of Some element \<Rightarrow> control_value element | None \<Rightarrow> [])"

text \<open>\<open>updateElement(elementId, content)\<close>\<close>

definition updateElement :: "string \<Rightarrow> content \<Rightarrow> state \<Rightarrow> state" where
  "updateElement elementId c s =
     (if elements s elementId \<noteq> None then s\<lparr>elements := (elements s)(elementId \<mapsto> c)\<rparr>
      else s)"

text \<open>
  \<open>showAlert(message, type, containerId)\<close>: into the element \<open>containerId\<close> if there is
  one, or into the \<open>globalAlertContainer\<close>, which \<open>createAlertContainer\<close> creates when
  it is missing. The alert is removed by a timer five seconds later; the model ends when
  the function returns.
\<close>

definition showAlert :: "string \<Rightarrow> string \<Rightarrow> string option \<Rightarrow> state \<Rightarrow> state" where
  "showAlert message alertType containerId s =
     (case containerId of
        Some cid \<Rightarrow>
          (if elements s cid = None then s
           else s\<lparr>elements := (elements s)(cid \<mapsto> AlertBox alertType message)\<rparr>)
      | None \<Rightarrow>
          s\<lparr>elements := (elements s)(''globalAlertContainer'' \<mapsto> AlertBox alertType message)\<rparr>)"

text \<open>\<open>getViolationTypeName(typeId)\<close> and \<open>getAreaName(areaId)\<close>\<close>

definition getViolationTypeName :: "string \<Rightarrow> state \<Rightarrow> string" where
  "getViolationTypeName typeId s =
     (case find (\<lambda>t. loose_eq (type_id t) typeId) (violationTypes s) of
        Some t \<Rightarrow> t_type_name t
      | None \<Rightarrow> ''Unknown'')"

definition getAreaName :: "string \<Rightarrow> state \<Rightarrow> string" where
  "getAreaName areaId s =
     (case find (\<lambda>a. loose_eq (area_id a) areaId) (areas s) of
        Some a \<Rightarrow> a_area_name a @ '', '' @ city a
      | None \<Rightarrow> ''Unknown'')"

section \<open>Dashboard\<close>

text \<open>\<open>vs.reduce((sum, v) => sum + v.fine_amount, 0)\<close>\<close>

definition sum_fines :: "violation list \<Rightarrow> jsnum" where
  "sum_fines vs = foldl (\<lambda>sum v. jsadd sum (fine_amount v)) (Finite 0) vs"

text \<open>The constants \<open>total\<close> (here \<open>total_amount\<close>), \<open>collected\<close> and \<open>pending\<close> of \<open>updateDashboard\<close>.\<close>

definition total_amount :: "violation list \<Rightarrow> jsnum" where
  "total_amount vs = sum_fines vs"

definition collected :: "violation list \<Rightarrow> jsnum" where
  "collected vs = sum_fines (filter (\<lambda>v. status v = ''paid'') vs)"

definition pending :: "violation list \<Rightarrow> jsnum" where
  "pending vs = jssub (total_amount vs) (collected vs)"

text \<open>\<open>updateRecentViolationsTable()\<close>\<close>

definition updateRecentViolationsTable :: "state \<Rightarrow> state" where
  "updateRecentViolationsTable s =
     (if elements s ''recentViolationsBody'' = None then s
      else s\<lparr>elements :=
               (elements s)(''recentViolationsBody'' \<mapsto> RecentRows (take 5 (violations s)))\<rparr>)"

text \<open>\<open>updateDashboard()\<close>\<close>

definition updateDashboard :: "state \<Rightarrow> state" where
  "updateDashboard s =
     updateRecentViolationsTable
       (updateElement ''pendingAmount'' (Currency (Number (pending (violations s))))
         (updateElement ''collectedAmount'' (Currency (Number (collected (violations s))))
           (updateElement ''totalFines'' (Currency (Number (total_amount (violations s))))
             (updateElement ''totalViolations''
                (Text (String_of_nat (length (violations s)))) s))))"

section \<open>Violations table\<close>

text \<open>\<open>createActionButtons(violation)\<close>\<close>

definition createActionButtons :: "user option \<Rightarrow> violation \<Rightarrow> action" where
  "createActionButtons cu v =
     (if status v = ''unpaid'' \<and> (case cu of None \<Rightarrow> False | Some u \<Rightarrow> role u \<noteq> ''citizen'')
      then MarkPaidButton (violation_id v) else NoAction)"

text \<open>\<open>loadViolationsTable()\<close>\<close>

definition loadViolationsTable :: "state \<Rightarrow> state" where
  "loadViolationsTable s =
     (if elements s ''violationsTableBody'' = None then s
      else s\<lparr>elements :=
               (elements s)(''violationsTableBody'' \<mapsto>
                  TableRows (map (\<lambda>v. (v, createActionButtons (currentUser s) v))
                                 (violations s)))\<rparr>)"

section \<open>Analytics\<close>

text \<open>The constants of \<open>updateAnalyticsStats\<close>.\<close>

definition paidCount :: "violation list \<Rightarrow> nat" where
  "paidCount vs = length (filter (\<lambda>v. status v = ''paid'') vs)"

definition unpaidCount :: "violation list \<Rightarrow> nat" where
  "unpaidCount vs = length (filter (\<lambda>v. status v = ''unpaid'') vs)"

definition collectionRate :: "violation list \<Rightarrow> jsval" where
  "collectionRate vs =
     (if jsgt (total_amount vs) (Finite 0)
      then FixedString (toFixed 1 (jsmul (jsdiv (collected vs) (total_amount vs)) (Finite 100)))
      else Number (Finite 0))"

definition avgFine :: "violation list \<Rightarrow> jsval" where
  "avgFine vs =
     (if 0 < length vs
      then FixedString (toFixed 2 (jsdiv (total_amount vs) (Finite (of_nat (length vs)))))
      else Number (Finite 0))"

text \<open>\<open>updateAnalyticsStats()\<close>\<close>

definition updateAnalyticsStats :: "state \<Rightarrow> state" where
  "updateAnalyticsStats s =
     updateElement ''avgFine'' (Currency (avgFine (violations s)))
       (updateElement ''unpaidCount'' (Text (String_of_nat (unpaidCount (violations s))))
         (updateElement ''paidCount'' (Text (String_of_nat (paidCount (violations s))))
           (updateElement ''collectionRate'' (Percent (collectionRate (violations s))) s)))"

subsection \<open>The counting objects\<close>

text \<open>
  \<open>areaStats\<close> and \<open>typeStats\<close> are plain objects: the list of their own properties in
  the order of creation. Reading a key that is not an own property finds the properties
  of \<open>Object.prototype\<close>.
\<close>

definition object_prototype_keys :: "string list" where
  "object_prototype_keys =
     [''constructor'', ''__defineGetter__'', ''__defineSetter__'', ''hasOwnProperty'',
      ''__lookupGetter__'', ''__lookupSetter__'', ''isPrototypeOf'',
      ''propertyIsEnumerable'', ''toString'', ''valueOf'', ''toLocaleString'']"

text \<open>
  \<open>stats[k] = (stats[k] || 0) + 1\<close>. An inherited function is truthy, and adding 1 to
  it makes a string, which becomes an own property; so does adding 1 to that string.
  \<open>__proto__\<close> reads as \<open>Object.prototype\<close>, and assigning a string to it does nothing.
\<close>

definition count_key :: "(string \<times> stat) list \<Rightarrow> string \<Rightarrow> (string \<times> stat) list" where
  "count_key stats k =
     (case map_of stats k of
        Some (Count n) \<Rightarrow> AList.update k (Count (n + 1)) stats
      | Some Garbage \<Rightarrow> AList.update k Garbage stats
      | None \<Rightarrow>
          if k = ''__proto__'' then stats
          else if k \<in> set object_prototype_keys then stats @ [(k, Garbage)]
          else stats @ [(k, Count 1)])"

text \<open>
  \<open>Object.entries(stats)\<close>: the keys that are array indices (canonical numerals up
  to \<open>2^32 - 2\<close>) in ascending numeric order, then the other keys in the order of
  their creation.
\<close>

definition is_array_index :: "string \<Rightarrow> bool" where
  "is_array_index k =
     (k \<noteq> [] \<and> list_all is_digit k \<and> (k = ''0'' \<or> hd k \<noteq> CHR ''0'')
      \<and> digits_val k \<le> 4294967294)"

definition entries :: "(string \<times> stat) list \<Rightarrow> (string \<times> stat) list" where
  "entries stats =
     sort_key (\<lambda>(k, c). digits_val k) (filter (\<lambda>(k, c). is_array_index k) stats)
     @ filter (\<lambda>(k, c). \<not> is_array_index k) stats"

text \<open>\<open>(count / violations.length * 100).toFixed(1)\<close>\<close>

definition percentage :: "stat \<Rightarrow> nat \<Rightarrow> numstr" where
  "percentage c len =
     toFixed 1
       (jsmul (jsdiv (case c of Count n \<Rightarrow> Finite (of_nat n) | Garbage \<Rightarrow> NaN)
                     (Finite (of_nat len)))
              (Finite 100))"

text \<open>
  The bars of \<open>displayAreaChart\<close> and \<open>displayTypeChart\<close> for the keys of the
  records: a label, a count and a percentage each.
\<close>

definition chart_bars :: "string list \<Rightarrow> (string \<times> stat \<times> numstr) list" where
  "chart_bars ks =
     map (\<lambda>(k, c). (k, c, percentage c (length ks))) (entries (foldl count_key [] ks))"

text \<open>\<open>displayAreaChart()\<close> and \<open>displayTypeChart()\<close>\<close>

definition displayAreaChart :: "state \<Rightarrow> state" where
  "displayAreaChart s =
     (if elements s ''areaChart'' = None then s
      else s\<lparr>elements :=
               (elements s)(''areaChart'' \<mapsto> Bars (chart_bars (map area_name (violations s))))\<rparr>)"

definition displayTypeChart :: "state \<Rightarrow> state" where
  "displayTypeChart s =
     (if elements s ''typeChart'' = None then s
      else s\<lparr>elements :=
               (elements s)(''typeChart'' \<mapsto> Bars (chart_bars (map type_name (violations s))))\<rparr>)"

text \<open>\<open>loadAnalytics()\<close>\<close>

definition loadAnalytics :: "state \<Rightarrow> state" where
  "loadAnalytics s = displayTypeChart (displayAreaChart (updateAnalyticsStats s))"

section \<open>Violation registration\<close>



text \<open>\<open>validateViolationForm(data)\<close>\<close>

definition validateViolationForm :: "formData \<Rightarrow> state \<Rightarrow> bool \<times> state" where
  "validateViolationForm data s =
     (if f_vehicle_number data = [] then
        (False, showAlert ''Please enter vehicle number'' ''error'' (Some ''registerAlert'') s)
      else if f_type_id data = [] then
        (False, showAlert ''Please select violation type'' ''error'' (Some ''registerAlert'') s)
      else if f_area_id data = [] then
        (False, showAlert ''Please select area'' ''error'' (Some ''registerAlert'') s)
      else if f_violation_date data = [] then
        (False, showAlert ''Please select date and time'' ''error'' (Some ''registerAlert'') s)
      else (True, s))"

text \<open>\<open>form.reset()\<close>: every control of the form takes its default value.\<close>

definition reset :: "string list \<Rightarrow> (string \<rightharpoonup> control) \<Rightarrow> (string \<rightharpoonup> control)" where
  "reset ids cs =
     (\<lambda>i. if i \<in> set ids
          then map_option (\<lambda>c. c\<lparr>control_value := control_default c\<rparr>) (cs i)
          else cs i)"

text \<open>The form data that \<open>registerViolation\<close> reads, and the record it builds.\<close>

definition read_formData :: "state \<Rightarrow> formData" where
  "read_formData s =
     \<lparr>f_vehicle_number = getValue ''vehicleNumber'' s,
      f_type_id = getValue ''violationType'' s,
      f_area_id = getValue ''area'' s,
      f_violation_date = getValue ''violationDate'' s,
      f_fine_amount = getValue ''fineAmount'' s,
      f_notes = getValue ''notes'' s\<rparr>"

definition newViolation :: "formData \<Rightarrow> state \<Rightarrow> violation" where
  "newViolation data s =
     \<lparr>violation_id = length (violations s) + 1,
      vehicle_number = toUpperCase (f_vehicle_number data),
      owner_name = ''Unknown'',
      type_name = getViolationTypeName (f_type_id data) s,
      area_name = getAreaName (f_area_id data) s,
      violation_date = replace CHR ''T'' CHR '' '' (f_violation_date data),
      fine_amount = parseFloat (f_fine_amount data),
      status = ''unpaid''\<rparr>"

text \<open>
  \<open>registerViolation(event)\<close>. When the document has no form \<open>violationForm\<close>,
  \<open>document.getElementById('violationForm').reset()\<close> throws a TypeError after the
  record has been added and the alert shown.
\<close>

definition registerViolation :: "state \<Rightarrow> outcome \<times> state" where
  "registerViolation s =
     (let data = read_formData s in
      case validateViolationForm data s of
        (False, s1) \<Rightarrow> (Returned, s1)
      | (True, s1) \<Rightarrow>
          let s2 = s1\<lparr>violations := newViolation data s1 # violations s1\<rparr>;
              s3 = showAlert ''Violation registered successfully!'' ''success''
                     (Some ''registerAlert'') s2
          in (case forms s3 ''violationForm'' of
                None \<Rightarrow> (TypeError, s3)
              | Some ids \<Rightarrow>
                  (Returned,
                   loadViolationsTable
                     (updateDashboard (s3\<lparr>controls := reset ids (controls s3)\<rparr>)))))"

section \<open>Marking a violation as paid\<close>

text \<open>
  \<open>violations.find(p)\<close> returns the first object that satisfies \<open>p\<close>, and the
  assignment to its \<open>status\<close> changes that element of the array.
\<close>

fun update_first :: "('a \<Rightarrow> bool) \<Rightarrow> ('a \<Rightarrow> 'a) \<Rightarrow> 'a list \<Rightarrow> 'a list" where
  "update_first p f [] = []"
| "update_first p f (x # xs) = (if p x then f x # xs else x # update_first p f xs)"

text \<open>
  \<open>markAsPaid(violationId)\<close>; \<open>confirmed\<close> is the user's answer to \<open>confirm(...)\<close>.
\<close>

definition markAsPaid :: "bool \<Rightarrow> nat \<Rightarrow> state \<Rightarrow> state" where
  "markAsPaid confirmed violationId s =
     (case find (\<lambda>v. violation_id v = violationId) (violations s) of
        None \<Rightarrow> showAlert ''Violation not found'' ''error'' None s
      | Some violation \<Rightarrow>
          if confirmed then
            loadAnalytics
              (loadViolationsTable
                (updateDashboard
                  (showAlert ''Payment recorded successfully!'' ''success'' None
                    (s\<lparr>violations :=
                         update_first (\<lambda>v. violation_id v = violationId)
                           (\<lambda>v. v\<lparr>status := ''paid''\<rparr>) (violations s)\<rparr>))))
          else s)"

subsection \<open>A document and a state for the mock data\<close>

text \<open>
  The elements that main.js looks up by id, the form controls empty, and an officer
  logged in; the rows are the sample payments of database.sql.
\<close>

definition sample_payments :: "payment list" where
  "sample_payments =
     [\<lparr>payment_id = 1, p_violation_id = 1, payment_date = ''2024-12-16 10:00:00'',
       amount_paid = 500, payment_method = ''online'', transaction_id = Some ''TXN001234567''\<rparr>,
      \<lparr>payment_id = 2, p_violation_id = 3, payment_date = ''2025-01-06 14:30:00'',
       amount_paid = 300, payment_method = ''card'', transaction_id = Some ''TXN001234568''\<rparr>,
      \<lparr>payment_id = 3, p_violation_id = 6, payment_date = ''2025-01-13 09:15:00'',
       amount_paid = 200, payment_method = ''cash'', transaction_id = Some ''CASH001''\<rparr>,
      \<lparr>payment_id = 4, p_violation_id = 8, payment_date = ''2025-01-15 11:45:00'',
       amount_paid = 500, payment_method = ''online'', transaction_id = Some ''TXN001234569''\<rparr>]"

definition form_control_ids :: "string list" where
  "form_control_ids =
     [''vehicleNumber'', ''violationType'', ''area'', ''violationDate'', ''fineAmount'',
      ''notes'']"

definition element_ids :: "string list" where
  "element_ids =
     [''totalViolations'', ''totalFines'', ''collectedAmount'', ''pendingAmount'',
      ''recentViolationsBody'', ''violationsTableBody'', ''collectionRate'', ''paidCount'',
      ''unpaidCount'', ''avgFine'', ''areaChart'', ''typeChart'', ''registerAlert'']"

definition mock_state :: state where
  "mock_state =
     \<lparr>currentUser = Some \<lparr>username = ''officer1'', role = ''officer''\<rparr>,
      violations = mock_violations,
      violationTypes = mock_violationTypes,
      areas = mock_areas,
      controls =
        map_of (map (\<lambda>i. (i, \<lparr>control_value = [], control_default = []\<rparr>))
                    (form_control_ids @ [''searchInput''])),
      forms = [''violationForm'' \<mapsto> form_control_ids],
      elements = map_of (map (\<lambda>i. (i, Text [])) element_ids),
      payments = sample_payments\<rparr>"

text \<open>The user types \<open>v\<close> into the control \<open>i\<close>.\<close>

definition enter :: "string \<Rightarrow> string \<Rightarrow> state \<Rightarrow> state" where
  "enter i v s =
     (case controls s i of
        None \<Rightarrow> s
      | Some c \<Rightarrow> s\<lparr>controls := (controls s)(i \<mapsto> c\<lparr>control_value := v\<rparr>)\<rparr>)"





text \<open>
  Three records whose fines were entered with two decimals, as \<open>registerViolation\<close>
  stores them.
\<close>

definition decimal_fines :: "violation list" where
  "decimal_fines =
     [(mock_violations ! 0)\<lparr>fine_amount := parseFloat ''270.20'', status := ''paid''\<rparr>,
      (mock_violations ! 1)\<lparr>fine_amount := parseFloat ''580.79'', status := ''unpaid''\<rparr>,
      (mock_violations ! 2)\<lparr>fine_amount := parseFloat ''59.90'', status := ''unpaid''\<rparr>]"

text \<open>The fine amounts of the mock data, as integers.\<close>

definition mock_amount :: "violation \<Rightarrow> int" where
  "mock_amount v = (if violation_id v = 2 then 1000 else if violation_id v = 1 then 500 else 300)"

section \<open>What the upper-case form is compared with\<close>


section \<open>What the breakdowns are compared with\<close>

text \<open>The distinct elements of a list in the order of their first occurrence.\<close>

definition first_occurrences :: "'a list \<Rightarrow> 'a list" where
  "first_occurrences ks = rev (remdups (rev ks))"





section \<open>Rounding to a double\<close>

lemma quotient_of_abs_pos:
  assumes "x \<noteq> 0" and pq: "quotient_of \<bar>x\<bar> = (p, q)"
  shows "0 < p" and "0 < q" and "\<bar>x\<bar> = of_int p / of_int q"
proof -
  show q: "0 < q" using quotient_of_denom_pos[OF pq] .
  show x: "\<bar>x\<bar> = of_int p / of_int q" using quotient_of_div[OF pq] .
  have "0 < \<bar>x\<bar>" using assms(1) by simp
  then have "0 < (of_int p :: rat) / of_int q" using x by simp
  then show "0 < p" using q by (simp add: zero_less_divide_iff)
qed

lemma bitlen_powi_bounds:
  assumes "0 < p"
  shows "2 powi (bitlen p - 1) \<le> (of_int p :: rat)" and "(of_int p :: rat) < 2 powi bitlen p"
proof -
  from bitlen_bounds[OF assms] have b: "2 ^ nat (bitlen p - 1) \<le> p" "p < 2 ^ nat (bitlen p)"
    by auto
  have ge1: "1 \<le> bitlen p" using assms by (simp add: bitlen_alt_def)
  have "(2::rat) powi (bitlen p - 1) = 2 ^ nat (bitlen p - 1)"
    using ge1 by (simp add: power_int_def)
  also have "\<dots> = of_int (2 ^ nat (bitlen p - 1))" by simp
  also have "\<dots> \<le> of_int p" using b(1) by (simp only: of_int_le_iff)
  finally show "2 powi (bitlen p - 1) \<le> (of_int p :: rat)" .
  have "(of_int p :: rat) < of_int (2 ^ nat (bitlen p))" using b(2) by (simp only: of_int_less_iff)
  also have "\<dots> = 2 powi bitlen p" using ge1 by (simp add: power_int_def)
  finally show "(of_int p :: rat) < 2 powi bitlen p" .
qed

lemma ilog2_bounds:
  assumes "x \<noteq> 0"
  shows "2 powi ilog2 x \<le> \<bar>x\<bar>" and "\<bar>x\<bar> < 2 powi (ilog2 x + 1)"
proof -
  obtain p q where pq: "quotient_of \<bar>x\<bar> = (p, q)" by force
  note f = quotient_of_abs_pos[OF assms pq]
  define d where "d = bitlen p - bitlen q"
  note bp = bitlen_powi_bounds[OF f(1)] and bq = bitlen_powi_bounds[OF f(2)]
  have qpos: "0 < (of_int q :: rat)" using f(2) by simp
  have il: "ilog2 x = (if 2 powi d \<le> \<bar>x\<bar> then d else d - 1)"
    by (simp add: ilog2_def pq d_def Let_def)
  have "\<bar>x\<bar> * of_int q = of_int p" using f(3) qpos by simp
  then have up: "\<bar>x\<bar> < 2 powi (d + 1)"
  proof -
    have "\<bar>x\<bar> * 2 powi (bitlen q - 1) \<le> \<bar>x\<bar> * of_int q"
      using bq(1) by (simp add: mult_left_mono)
    also have "\<dots> = of_int p" by fact
    also have "\<dots> < 2 powi bitlen p" by (rule bp(2))
    also have "\<dots> = 2 powi (d + 1) * 2 powi (bitlen q - 1)"
      by (simp add: d_def power_int_add[symmetric])
    finally show ?thesis by simp
  qed
  have lo: "2 powi (d - 1) \<le> \<bar>x\<bar>"
  proof -
    have "2 powi (d - 1) * 2 powi bitlen q = (2::rat) powi (bitlen p - 1)"
      by (simp add: d_def power_int_add[symmetric])
    also have "\<dots> \<le> of_int p" by (rule bp(1))
    also have "\<dots> = \<bar>x\<bar> * of_int q" using \<open>\<bar>x\<bar> * of_int q = of_int p\<close> by simp
    also have "\<dots> \<le> \<bar>x\<bar> * 2 powi bitlen q" using bq(2) by (simp add: mult_left_mono)
    finally show ?thesis by simp
  qed
  show "2 powi ilog2 x \<le> \<bar>x\<bar>" using lo by (simp add: il)
  show "\<bar>x\<bar> < 2 powi (ilog2 x + 1)" using up by (simp add: il)
qed

lemma powi2_less_cancel: "(2::rat) powi a < 2 powi b \<Longrightarrow> a < b"
proof (rule ccontr)
  assume h: "(2::rat) powi a < 2 powi b" and "\<not> a < b"
  then have "b \<le> a" by simp
  then have "(2::rat) powi b \<le> 2 powi a" by (rule power_int_increasing) simp
  with h show False by simp
qed

lemma ilog2_ge:
  assumes "x \<noteq> 0" and "2 powi a \<le> \<bar>x\<bar>"
  shows "a \<le> ilog2 x"
proof -
  have "(2::rat) powi a < 2 powi (ilog2 x + 1)"
    using assms(2) ilog2_bounds(2)[OF assms(1)] by simp
  then have "a < ilog2 x + 1" by (rule powi2_less_cancel)
  then show ?thesis by simp
qed

lemma ilog2_less:
  assumes "x \<noteq> 0" and "\<bar>x\<bar> < 2 powi b"
  shows "ilog2 x < b"
proof -
  have "(2::rat) powi ilog2 x < 2 powi b"
    using assms(2) ilog2_bounds(1)[OF assms(1)] by simp
  then show ?thesis by (rule powi2_less_cancel)
qed

lemma round_even_of_int: "round_even (of_int n) = n"
  by (simp add: round_even_def)

lemma round_even_error: "\<bar>of_int (round_even x) - x\<bar> \<le> 1 / 2"
proof -
  have "of_int \<lfloor>x\<rfloor> \<le> x" "x < of_int \<lfloor>x\<rfloor> + 1" by linarith+
  then show ?thesis by (auto simp: round_even_def Let_def)
qed


lemma round_double_core:
  assumes "x \<noteq> 0" and "- 1022 \<le> ilog2 x" and "ilog2 x \<le> 1022"
  shows "round_double x =
           Finite (of_int (round_even (x / 2 powi (ilog2 x - 52))) * 2 powi (ilog2 x - 52))"
    and "\<bar>x / 2 powi (ilog2 x - 52)\<bar> < 2 ^ 53"
proof -
  define e where "e = ilog2 x - 52"
  define m where "m = round_even (x / 2 powi e)"
  have emax: "max (ilog2 x - 52) (- 1074) = e" using assms(2) by (simp add: e_def)
  have pos: "0 < (2::rat) powi e" by simp
  have e53: "ilog2 x + 1 = e + 53" by (simp add: e_def)
  have "\<bar>x\<bar> < 2 powi (e + 53)" using ilog2_bounds(2)[OF assms(1)] unfolding e53 .
  also have "\<dots> = 2 powi e * 2 ^ 53" by (simp add: power_int_add)
  finally have "\<bar>x\<bar> / 2 powi e < 2 ^ 53" using pos by (simp add: divide_less_eq mult.commute)
  moreover have "\<bar>x / 2 powi e\<bar> = \<bar>x\<bar> / 2 powi e"
    by (simp only: abs_divide abs_of_pos[OF pos])
  ultimately have s': "\<bar>x / 2 powi e\<bar> < 2 ^ 53" by (simp only:)
  then show s: "\<bar>x / 2 powi (ilog2 x - 52)\<bar> < 2 ^ 53" unfolding e_def .
  have "\<bar>of_int m - x / 2 powi e\<bar> \<le> 1 / 2" unfolding m_def by (rule round_even_error)
  then have "\<bar>(of_int m :: rat)\<bar> \<le> \<bar>x / 2 powi e\<bar> + 1 / 2" by linarith
  also have "\<dots> < 2 ^ 53 + 1 / 2" using s' by (simp only: add_strict_right_mono)
  finally have "(of_int \<bar>m\<bar> :: rat) < of_int (2 ^ 53) + 1 / 2" by simp
  then have "\<bar>m\<bar> < 2 ^ 53 + 1" by linarith
  then have "\<bar>m\<bar> < 2 ^ nat 54" by simp
  then have "bitlen \<bar>m\<bar> \<le> 54" by (simp only: bitlen_le_iff_power) simp
  then have "\<not> 1024 < e + bitlen \<bar>m\<bar>" using assms(3) by (simp add: e_def)
  then show "round_double x =
           Finite (of_int (round_even (x / 2 powi (ilog2 x - 52))) * 2 powi (ilog2 x - 52))"
    using assms(1) emax by (simp add: round_double_def Let_def m_def e_def)
qed


lemma round_double_exact:
  assumes "x \<noteq> 0" and "- 1022 \<le> ilog2 x" and "ilog2 x \<le> 1022"
    and "x / 2 powi (ilog2 x - 52) = of_int k"
  shows "round_double x = Finite x"
proof -
  have "of_int k * 2 powi (ilog2 x - 52) = x"
    using assms(4)[symmetric] by simp
  then show ?thesis
    using round_double_core(1)[OF assms(1-3)] by (simp add: assms(4) round_even_of_int)
qed

lemma round_double_int:
  assumes "\<bar>n\<bar> \<le> 2 ^ 53"
  shows "round_double (of_int n) = Finite (of_int n)"
proof (cases "n = 0")
  case True
  then show ?thesis by (simp add: round_double_def)
next
  case False
  define x :: rat where "x = of_int n"
  have x0: "x \<noteq> 0" using False by (simp add: x_def)
  have "1 \<le> \<bar>n\<bar>" using False by simp
  then have "(1::rat) \<le> of_int \<bar>n\<bar>" by (simp only: of_int_1_le_iff)
  then have "2 powi 0 \<le> \<bar>x\<bar>" by (simp add: x_def)
  then have lo: "0 \<le> ilog2 x" by (rule ilog2_ge[OF x0])
  have "\<bar>n\<bar> < 2 ^ 54" using assms by simp
  then have "(of_int \<bar>n\<bar> :: rat) < of_int (2 ^ 54)" by (simp only: of_int_less_iff)
  then have "\<bar>x\<bar> < 2 powi 54" by (simp add: x_def)
  then have hi: "ilog2 x < 54" by (rule ilog2_less[OF x0])
  have "\<exists>k. x / 2 powi (ilog2 x - 52) = of_int k"
  proof (cases "ilog2 x \<le> 52")
    case True
    then have "(2::rat) powi (ilog2 x - 52) = 1 / 2 ^ nat (52 - ilog2 x)"
      by (simp add: power_int_def inverse_eq_divide power_one_over[symmetric])
    then have "x / 2 powi (ilog2 x - 52) = of_int (n * 2 ^ nat (52 - ilog2 x))"
      by (simp add: x_def)
    then show ?thesis by blast
  next
    case False
    then have il: "ilog2 x = 53" using hi by simp
    have "(2::rat) powi 53 \<le> \<bar>x\<bar>" using ilog2_bounds(1)[OF x0] by (simp add: il)
    then have "(of_int (2 ^ 53) :: rat) \<le> of_int \<bar>n\<bar>" by (simp add: x_def)
    then have "2 ^ 53 \<le> \<bar>n\<bar>" by (simp only: of_int_le_iff)
    then have "\<bar>n\<bar> = 2 ^ 53" using assms by simp
    then consider "n = 2 ^ 53" | "n = - (2 ^ 53)" by linarith
    then have "n = 2 * (n div 2)" by cases simp_all
    then have "x = 2 * of_int (n div 2)" unfolding x_def by (metis of_int_mult of_int_numeral)
    moreover have "(2::rat) powi (ilog2 x - 52) = 2" by (simp add: il)
    ultimately have "x / 2 powi (ilog2 x - 52) = 2 * of_int (n div 2) / 2" by (simp only:)
    then have "x / 2 powi (ilog2 x - 52) = of_int (n div 2)" by simp
    then show ?thesis by blast
  qed
  then obtain k where "x / 2 powi (ilog2 x - 52) = of_int k" ..
  then have "round_double x = Finite x"
    using lo hi by (intro round_double_exact[OF x0]) auto
  then show ?thesis by (simp add: x_def)
qed

section \<open>What the functions leave alone\<close>

lemma updateElement_frame [simp]:
  "violations (updateElement i c s) = violations s"
  "payments (updateElement i c s) = payments s"
  "currentUser (updateElement i c s) = currentUser s"
  "violationTypes (updateElement i c s) = violationTypes s"
  "areas (updateElement i c s) = areas s"
  "controls (updateElement i c s) = controls s"
  "forms (updateElement i c s) = forms s"
  by (simp_all add: updateElement_def)

lemma updateElement_elements:
  "elements (updateElement i c s) j =
     (if j = i \<and> elements s i \<noteq> None then Some c else elements s j)"
  by (simp add: updateElement_def)

lemma showAlert_frame [simp]:
  "violations (showAlert m t c s) = violations s"
  "payments (showAlert m t c s) = payments s"
  "currentUser (showAlert m t c s) = currentUser s"
  "violationTypes (showAlert m t c s) = violationTypes s"
  "areas (showAlert m t c s) = areas s"
  "controls (showAlert m t c s) = controls s"
  "forms (showAlert m t c s) = forms s"
  by (simp_all add: showAlert_def split: option.split)

lemma showAlert_global:
  "elements (showAlert m t None s) j =
     (if j = ''globalAlertContainer'' then Some (AlertBox t m) else elements s j)"
  by (simp add: showAlert_def)

lemma updateRecentViolationsTable_frame [simp]:
  "violations (updateRecentViolationsTable s) = violations s"
  "payments (updateRecentViolationsTable s) = payments s"
  "currentUser (updateRecentViolationsTable s) = currentUser s"
  "controls (updateRecentViolationsTable s) = controls s"
  "forms (updateRecentViolationsTable s) = forms s"
  by (simp_all add: updateRecentViolationsTable_def)

lemma updateRecentViolationsTable_elements:
  "elements (updateRecentViolationsTable s) j =
     (if j = ''recentViolationsBody'' \<and> elements s j \<noteq> None
      then Some (RecentRows (take 5 (violations s))) else elements s j)"
  by (simp add: updateRecentViolationsTable_def)

lemma updateDashboard_frame [simp]:
  "violations (updateDashboard s) = violations s"
  "payments (updateDashboard s) = payments s"
  "currentUser (updateDashboard s) = currentUser s"
  "controls (updateDashboard s) = controls s"
  "forms (updateDashboard s) = forms s"
  by (simp_all add: updateDashboard_def)

lemma updateDashboard_alert:
  "elements (updateDashboard s) ''globalAlertContainer'' = elements s ''globalAlertContainer''"
  by (simp add: updateDashboard_def updateRecentViolationsTable_elements updateElement_elements)

lemma loadViolationsTable_frame [simp]:
  "violations (loadViolationsTable s) = violations s"
  "payments (loadViolationsTable s) = payments s"
  "currentUser (loadViolationsTable s) = currentUser s"
  "controls (loadViolationsTable s) = controls s"
  "forms (loadViolationsTable s) = forms s"
  by (simp_all add: loadViolationsTable_def)

lemma loadViolationsTable_alert:
  "elements (loadViolationsTable s) ''globalAlertContainer'' = elements s ''globalAlertContainer''"
  by (simp add: loadViolationsTable_def)

lemma updateAnalyticsStats_frame [simp]:
  "violations (updateAnalyticsStats s) = violations s"
  "payments (updateAnalyticsStats s) = payments s"
  by (simp_all add: updateAnalyticsStats_def)

lemma updateAnalyticsStats_alert:
  "elements (updateAnalyticsStats s) ''globalAlertContainer'' = elements s ''globalAlertContainer''"
  by (simp add: updateAnalyticsStats_def updateElement_elements)

lemma displayAreaChart_frame [simp]:
  "violations (displayAreaChart s) = violations s"
  "payments (displayAreaChart s) = payments s"
  by (simp_all add: displayAreaChart_def)

lemma displayAreaChart_alert:
  "elements (displayAreaChart s) ''globalAlertContainer'' = elements s ''globalAlertContainer''"
  by (simp add: displayAreaChart_def)

lemma displayTypeChart_frame [simp]:
  "violations (displayTypeChart s) = violations s"
  "payments (displayTypeChart s) = payments s"
  by (simp_all add: displayTypeChart_def)

lemma displayTypeChart_alert:
  "elements (displayTypeChart s) ''globalAlertContainer'' = elements s ''globalAlertContainer''"
  by (simp add: displayTypeChart_def)

lemma loadAnalytics_frame [simp]:
  "violations (loadAnalytics s) = violations s"
  "payments (loadAnalytics s) = payments s"
  by (simp_all add: loadAnalytics_def)

lemma loadAnalytics_alert:
  "elements (loadAnalytics s) ''globalAlertContainer'' = elements s ''globalAlertContainer''"
  by (simp add: loadAnalytics_def displayTypeChart_alert displayAreaChart_alert
      updateAnalyticsStats_alert)

section \<open>markAsPaid\<close>

lemma find_update_first:
  assumes "find p xs = Some v"
  shows "\<exists>pre post. xs = pre @ v # post \<and> list_all (\<lambda>x. \<not> p x) pre \<and> p v
           \<and> update_first p f xs = pre @ f v # post"
  using assms
proof (induction xs)
  case Nil
  then show ?case by simp
next
  case (Cons x xs)
  show ?case
  proof (cases "p x")
    case True
    with Cons.prems have "x = v" by simp
    with True have "x # xs = [] @ v # xs \<and> list_all (\<lambda>x. \<not> p x) [] \<and> p v
        \<and> update_first p f (x # xs) = [] @ f v # xs" by simp
    then show ?thesis by blast
  next
    case False
    with Cons.prems have "find p xs = Some v" by simp
    from Cons.IH[OF this] obtain pre post where
      h: "xs = pre @ v # post" "list_all (\<lambda>x. \<not> p x) pre" "p v"
         "update_first p f xs = pre @ f v # post" by blast
    with False have "x # xs = (x # pre) @ v # post \<and> list_all (\<lambda>x. \<not> p x) (x # pre) \<and> p v
        \<and> update_first p f (x # xs) = (x # pre) @ f v # post" by simp
    then show ?thesis by blast
  qed
qed

lemma markAsPaid_found:
  assumes "find (\<lambda>v. violation_id v = i) (violations s) = Some v"
  shows "violations (markAsPaid True i s) =
           update_first (\<lambda>v. violation_id v = i) (\<lambda>v. v\<lparr>status := ''paid''\<rparr>) (violations s)"
    and "payments (markAsPaid c i s) = payments s"
    and "elements (markAsPaid True i s) ''globalAlertContainer'' =
           Some (AlertBox ''success'' ''Payment recorded successfully!'')"
    and "markAsPaid False i s = s"
  using assms
  by (simp_all add: markAsPaid_def loadAnalytics_alert loadViolationsTable_alert
      updateDashboard_alert showAlert_global)


lemma mock_find2:
  "find (\<lambda>v. violation_id v = 2) (violations mock_state) = Some (mock_violations ! 1)"
  by (simp add: mock_state_def mock_violations_def)





text \<open>
  Claim C6, as the code has it. For a record that is unpaid or disputed and is the first
  of the collection with its id, \<open>markAsPaid\<close>, once the user has confirmed, sets the
  status of that record to \<open>paid\<close> and leaves every other field and every other record
  as it was. It creates no payment: the payments are what they were.
\<close>

theorem markAsPaid_sets_status_paid:
  assumes "find (\<lambda>v. violation_id v = i) (violations s) = Some v"
    and "status v = ''unpaid'' \<or> status v = ''disputed''"
  shows "\<exists>pre post. violations s = pre @ v # post
           \<and> violations (markAsPaid True i s) = pre @ v\<lparr>status := ''paid''\<rparr> # post
           \<and> payments (markAsPaid True i s) = payments s"
proof -
  from find_update_first[OF assms(1)] obtain pre post where
    "violations s = pre @ v # post"
    "update_first (\<lambda>v. violation_id v = i) (\<lambda>v. v\<lparr>status := ''paid''\<rparr>) (violations s)
       = pre @ v\<lparr>status := ''paid''\<rparr> # post" by blast
  then show ?thesis using markAsPaid_found(1,2)[OF assms(1)] by auto
qed

theorem markAsPaid_sets_status_paid_witness:
  "\<exists>pre post. violations mock_state = pre @ (mock_violations ! 1) # post
     \<and> violations (markAsPaid True 2 mock_state) =
         pre @ (mock_violations ! 1)\<lparr>status := ''paid''\<rparr> # post
     \<and> payments (markAsPaid True 2 mock_state) = payments mock_state"
proof -
  have "status (mock_violations ! 1) = ''unpaid'' \<or> status (mock_violations ! 1) = ''disputed''"
    by (simp add: mock_violations_def)
  from markAsPaid_sets_status_paid[OF mock_find2 this] show ?thesis .
qed

text \<open>
  Claim C6 as stated fails: marking the unpaid record of the mock data as paid appends
  nothing to the payments.
\<close>

theorem markAsPaid_appends_no_payment:
  "status (mock_violations ! 1) = ''unpaid''
   \<and> find (\<lambda>v. violation_id v = 2) (violations mock_state) = Some (mock_violations ! 1)
   \<and> payments (markAsPaid True 2 mock_state) = payments mock_state
   \<and> length (payments (markAsPaid True 2 mock_state)) \<noteq> length (payments mock_state) + 1"
  using markAsPaid_found(2)[OF mock_find2] mock_find2 by (simp add: mock_violations_def)

section \<open>Status breakdown\<close>

text \<open>
  Claim C7. For every collection, \<open>paidCount\<close> is the number of records whose status is
  \<open>paid\<close> and \<open>unpaidCount\<close> the number of records whose status is \<open>unpaid\<close>; the
  records with any other status are counted by neither, so the two counts and the number
  of those records add up to the length of the collection, and there is a collection for
  which the two counts add up to less than its length.
\<close>

theorem status_breakdown:
  "(\<forall>vs. paidCount vs = card {i. i < length vs \<and> status (vs ! i) = ''paid''}
        \<and> unpaidCount vs = card {i. i < length vs \<and> status (vs ! i) = ''unpaid''}
        \<and> paidCount vs + unpaidCount vs
            + card {i. i < length vs \<and> status (vs ! i) \<noteq> ''paid'' \<and> status (vs ! i) \<noteq> ''unpaid''}
            = length vs)
   \<and> (\<exists>vs. paidCount vs + unpaidCount vs < length vs)"
proof (intro conjI allI)
  fix vs :: "violation list"
  show p: "paidCount vs = card {i. i < length vs \<and> status (vs ! i) = ''paid''}"
    by (simp add: paidCount_def length_filter_conv_card)
  show u: "unpaidCount vs = card {i. i < length vs \<and> status (vs ! i) = ''unpaid''}"
    by (simp add: unpaidCount_def length_filter_conv_card)
  have "length (filter (\<lambda>v. status v = ''paid'') vs)
        + length (filter (\<lambda>v. status v = ''unpaid'') vs)
        + length (filter (\<lambda>v. status v \<noteq> ''paid'' \<and> status v \<noteq> ''unpaid'') vs) = length vs"
    by (induction vs) auto
  then show "paidCount vs + unpaidCount vs
            + card {i. i < length vs \<and> status (vs ! i) \<noteq> ''paid'' \<and> status (vs ! i) \<noteq> ''unpaid''}
            = length vs"
    by (simp add: paidCount_def unpaidCount_def length_filter_conv_card)
next
  have "paidCount [(mock_violations ! 0)\<lparr>status := ''disputed''\<rparr>]
        + unpaidCount [(mock_violations ! 0)\<lparr>status := ''disputed''\<rparr>]
        < length [(mock_violations ! 0)\<lparr>status := ''disputed''\<rparr>]"
    by (simp add: paidCount_def unpaidCount_def)
  then show "\<exists>vs. paidCount vs + unpaidCount vs < length vs" by blast
qed

section \<open>Frame\<close>

lemma only_elements:
  fixes s t :: state
  assumes "currentUser t = currentUser s" and "violations t = violations s"
    and "violationTypes t = violationTypes s" and "areas t = areas s"
    and "controls t = controls s" and "forms t = forms s" and "payments t = payments s"
  shows "t = s\<lparr>elements := elements t\<rparr>"
  by (rule state.equality) (simp_all add: assms)

lemma updateElement_only_elements:
  "updateElement i c s = s\<lparr>elements := elements (updateElement i c s)\<rparr>"
  by (rule only_elements) simp_all

lemma updateRecentViolationsTable_only_elements:
  "updateRecentViolationsTable s = s\<lparr>elements := elements (updateRecentViolationsTable s)\<rparr>"
  by (rule only_elements) (simp_all add: updateRecentViolationsTable_def)

lemma updateDashboard_only_elements:
  "updateDashboard s = s\<lparr>elements := elements (updateDashboard s)\<rparr>"
  by (rule only_elements) (simp_all add: updateDashboard_def updateRecentViolationsTable_def)

lemma updateAnalyticsStats_only_elements:
  "updateAnalyticsStats s = s\<lparr>elements := elements (updateAnalyticsStats s)\<rparr>"
  by (rule only_elements) (simp_all add: updateAnalyticsStats_def)

lemma displayAreaChart_only_elements:
  "displayAreaChart s = s\<lparr>elements := elements (displayAreaChart s)\<rparr>"
  by (rule only_elements) (simp_all add: displayAreaChart_def)

lemma displayTypeChart_only_elements:
  "displayTypeChart s = s\<lparr>elements := elements (displayTypeChart s)\<rparr>"
  by (rule only_elements) (simp_all add: displayTypeChart_def)

lemma loadAnalytics_only_elements:
  "loadAnalytics s = s\<lparr>elements := elements (loadAnalytics s)\<rparr>"
  by (rule only_elements)
     (simp_all add: loadAnalytics_def displayTypeChart_def displayAreaChart_def
        updateAnalyticsStats_def)

text \<open>
  Claim C9. The functions that compute the totals, the status breakdown, the collection
  rate, the average fine and the breakdowns by area and by type write to the elements of
  the document and to nothing else: the state afterwards is the state before with other
  elements. So the collection of records is the same list of the same records
  afterwards.
\<close>

theorem aggregation_leaves_records:
  "updateDashboard s = s\<lparr>elements := elements (updateDashboard s)\<rparr>
   \<and> updateAnalyticsStats s = s\<lparr>elements := elements (updateAnalyticsStats s)\<rparr>
   \<and> displayAreaChart s = s\<lparr>elements := elements (displayAreaChart s)\<rparr>
   \<and> displayTypeChart s = s\<lparr>elements := elements (displayTypeChart s)\<rparr>
   \<and> loadAnalytics s = s\<lparr>elements := elements (loadAnalytics s)\<rparr>
   \<and> violations (updateDashboard s) = violations s
   \<and> violations (updateAnalyticsStats s) = violations s
   \<and> violations (displayAreaChart s) = violations s
   \<and> violations (displayTypeChart s) = violations s
   \<and> violations (loadAnalytics s) = violations s"
proof -
  have keep: "violations t = violations s" if "t = s\<lparr>elements := elements t\<rparr>" for t
  proof -
    have "violations t = violations (s\<lparr>elements := elements t\<rparr>)" using that by simp
    then show ?thesis by simp
  qed
  show ?thesis
    using updateDashboard_only_elements[of s] updateAnalyticsStats_only_elements[of s]
      displayAreaChart_only_elements[of s] displayTypeChart_only_elements[of s]
      loadAnalytics_only_elements[of s]
      keep[OF updateDashboard_only_elements[of s]] keep[OF updateAnalyticsStats_only_elements[of s]]
      keep[OF displayAreaChart_only_elements[of s]] keep[OF displayTypeChart_only_elements[of s]]
      keep[OF loadAnalytics_only_elements[of s]]
    by (intro conjI)
qed

section \<open>Empty collection\<close>

lemma round_double_0: "round_double 0 = Finite 0"
  by (simp add: round_double_def)

text \<open>
  Claim C4. For the empty collection the count is 0, the total, the collected and the
  pending amount are the number 0, and the collection rate and the average fine are the
  number 0: the two divisions are not evaluated.
\<close>

theorem empty_collection:
  "length ([] :: violation list) = 0
   \<and> total_amount [] = Finite 0 \<and> collected [] = Finite 0 \<and> pending [] = Finite 0
   \<and> collectionRate [] = Number (Finite 0) \<and> avgFine [] = Number (Finite 0)"
  by (simp add: total_amount_def collected_def pending_def collectionRate_def avgFine_def sum_fines_def
      jssub_def round_double_0)

section \<open>Registration\<close>



lemma registerViolation_invalid:
  assumes "getValue ''vehicleNumber'' s = [] \<or> getValue ''violationType'' s = []
         \<or> getValue ''area'' s = [] \<or> getValue ''violationDate'' s = []"
  shows "registerViolation s =
     (Returned,
      showAlert
        (if getValue ''vehicleNumber'' s = [] then ''Please enter vehicle number''
         else if getValue ''violationType'' s = [] then ''Please select violation type''
         else if getValue ''area'' s = [] then ''Please select area''
         else ''Please select date and time'')
        ''error'' (Some ''registerAlert'') s)"
  using assms
  by (auto simp add: registerViolation_def validateViolationForm_def read_formData_def Let_def)

lemma mock_getValue:
  "getValue ''vehicleNumber'' mock_state = []"
  "getValue ''violationType'' mock_state = []"
  "getValue ''area'' mock_state = []"
  "getValue ''violationDate'' mock_state = []"
  by (simp_all add: getValue_def mock_state_def form_control_ids_def)

lemma mock_registerAlert: "elements mock_state ''registerAlert'' = Some (Text [])"
  by (simp add: mock_state_def element_ids_def)

text \<open>
  Claim C3, as the code has it. When one or more of vehicle number, violation type, area
  and date is empty, \<open>registerViolation\<close> returns after showing exactly one error alert
  in \<open>registerAlert\<close>: the message of the first empty field in that order. No record is
  added. Nothing but emptiness is tested.
\<close>

theorem validation_reports_first_empty_field:
  assumes "getValue ''vehicleNumber'' s = [] \<or> getValue ''violationType'' s = []
         \<or> getValue ''area'' s = [] \<or> getValue ''violationDate'' s = []"
  shows "registerViolation s =
     (Returned,
      showAlert
        (if getValue ''vehicleNumber'' s = [] then ''Please enter vehicle number''
         else if getValue ''violationType'' s = [] then ''Please select violation type''
         else if getValue ''area'' s = [] then ''Please select area''
         else ''Please select date and time'')
        ''error'' (Some ''registerAlert'') s)
     \<and> violations (snd (registerViolation s)) = violations s"
  using registerViolation_invalid[OF assms] by simp

theorem validation_reports_first_empty_field_witness:
  "registerViolation mock_state =
     (Returned,
      showAlert ''Please enter vehicle number'' ''error'' (Some ''registerAlert'') mock_state)
   \<and> violations (snd (registerViolation mock_state)) = violations mock_state"
proof -
  have "getValue ''vehicleNumber'' mock_state = [] \<or> getValue ''violationType'' mock_state = []
         \<or> getValue ''area'' mock_state = [] \<or> getValue ''violationDate'' mock_state = []"
    by (simp add: mock_getValue)
  from validation_reports_first_empty_field[OF this] show ?thesis
    by (simp add: mock_getValue)
qed

text \<open>
  Claim C3 as stated fails: with all four required fields empty, the whole effect of
  \<open>registerViolation\<close> is the one alert about the vehicle number.
\<close>

theorem validation_reports_one_field_only:
  "getValue ''vehicleNumber'' mock_state = [] \<and> getValue ''violationType'' mock_state = []
   \<and> getValue ''area'' mock_state = [] \<and> getValue ''violationDate'' mock_state = []
   \<and> registerViolation mock_state =
       (Returned,
        mock_state\<lparr>elements := (elements mock_state)(''registerAlert'' \<mapsto>
           AlertBox ''error'' ''Please enter vehicle number'')\<rparr>)"
proof -
  have "getValue ''vehicleNumber'' mock_state = [] \<or> getValue ''violationType'' mock_state = []
         \<or> getValue ''area'' mock_state = [] \<or> getValue ''violationDate'' mock_state = []"
    by (simp add: mock_getValue)
  from registerViolation_invalid[OF this] show ?thesis
    by (simp add: mock_getValue showAlert_def mock_registerAlert)
qed

lemma enter_frame [simp]:
  "violations (enter i v s) = violations s"
  "violationTypes (enter i v s) = violationTypes s"
  "elements (enter i v s) = elements s"
  "forms (enter i v s) = forms s"
  by (simp_all add: enter_def split: option.split)













section \<open>Numerals\<close>













section \<open>Selecting a violation type\<close>






section \<open>Totals\<close>

lemma sum_fines_int_acc:
  assumes "\<forall>v \<in> set vs. fine_amount v = Finite (of_int (amount v))"
    and "\<bar>acc\<bar> + (\<Sum>v\<leftarrow>vs. \<bar>amount v\<bar>) \<le> 2 ^ 53"
  shows "foldl (\<lambda>sum v. jsadd sum (fine_amount v)) (Finite (of_int acc)) vs
         = Finite (of_int (acc + (\<Sum>v\<leftarrow>vs. amount v)))"
  using assms
proof (induction vs arbitrary: acc)
  case Nil
  then show ?case by simp
next
  case (Cons v vs)
  have fv: "fine_amount v = Finite (of_int (amount v))" using Cons.prems(1) by simp
  have b: "\<bar>acc + amount v\<bar> \<le> 2 ^ 53"
  proof -
    have "0 \<le> (\<Sum>v\<leftarrow>vs. \<bar>amount v\<bar>)" by (rule sum_list_nonneg) auto
    then show ?thesis using Cons.prems(2) by simp
  qed
  have step: "jsadd (Finite (of_int acc)) (fine_amount v) = Finite (of_int (acc + amount v))"
    using round_double_int[OF b] by (simp add: fv)
  have "\<bar>acc + amount v\<bar> + (\<Sum>v\<leftarrow>vs. \<bar>amount v\<bar>) \<le> 2 ^ 53"
    using Cons.prems(2) by simp
  then have "foldl (\<lambda>sum v. jsadd sum (fine_amount v)) (Finite (of_int (acc + amount v))) vs
         = Finite (of_int (acc + amount v + (\<Sum>v\<leftarrow>vs. amount v)))"
    using Cons.prems(1) by (intro Cons.IH) auto
  then show ?case by (simp add: step add.assoc)
qed

lemma sum_fines_int:
  assumes "\<forall>v \<in> set vs. fine_amount v = Finite (of_int (amount v))"
    and "(\<Sum>v\<leftarrow>vs. \<bar>amount v\<bar>) \<le> 2 ^ 53"
  shows "sum_fines vs = Finite (of_int (\<Sum>v\<leftarrow>vs. amount v))"
  using sum_fines_int_acc[of vs amount 0] assms by (simp add: sum_fines_def)

lemma sum_list_abs_filter:
  "(\<Sum>v\<leftarrow>filter p vs. \<bar>amount v :: int\<bar>) \<le> (\<Sum>v\<leftarrow>vs. \<bar>amount v\<bar>)"
  by (induction vs) auto

lemma sum_list_split_filter:
  "(\<Sum>v\<leftarrow>vs. amount v :: int)
   = (\<Sum>v\<leftarrow>filter p vs. amount v) + (\<Sum>v\<leftarrow>filter (\<lambda>v. \<not> p v) vs. amount v)"
  by (induction vs) auto

lemma sum_list_abs_le: "\<bar>\<Sum>v\<leftarrow>vs. amount v :: int\<bar> \<le> (\<Sum>v\<leftarrow>vs. \<bar>amount v\<bar>)"
  by (induction vs) auto

text \<open>
  Claim C2, as the code has it. For every collection whose fine amounts are integers, the
  sum of their absolute values being at most \<open>2^53\<close>, the total is the sum of the fine
  amounts of all records, the collected amount is the sum over the records whose status
  is \<open>paid\<close>, the pending amount is the total minus the collected amount, and
  \<open>collected + pending == total\<close> holds.
\<close>

theorem totals_of_integer_fines:
  assumes "\<forall>v \<in> set vs. fine_amount v = Finite (of_int (amount v))"
    and "(\<Sum>v\<leftarrow>vs. \<bar>amount v\<bar>) \<le> 2 ^ 53"
  shows "total_amount vs = Finite (of_int (\<Sum>v\<leftarrow>vs. amount v))
       \<and> collected vs = Finite (of_int (\<Sum>v\<leftarrow>filter (\<lambda>v. status v = ''paid'') vs. amount v))
       \<and> pending vs = Finite (of_int ((\<Sum>v\<leftarrow>vs. amount v)
                            - (\<Sum>v\<leftarrow>filter (\<lambda>v. status v = ''paid'') vs. amount v)))
       \<and> jsadd (collected vs) (pending vs) = total_amount vs
       \<and> jseq (jsadd (collected vs) (pending vs)) (total_amount vs)"
proof -
  let ?paid = "\<lambda>v. status v = ''paid''"
  let ?t = "\<Sum>v\<leftarrow>vs. amount v"
  let ?c = "\<Sum>v\<leftarrow>filter ?paid vs. amount v"
  have t: "total_amount vs = Finite (of_int ?t)"
    using sum_fines_int[OF assms] by (simp add: total_amount_def)
  have "(\<Sum>v\<leftarrow>filter ?paid vs. \<bar>amount v\<bar>) \<le> 2 ^ 53"
    using sum_list_abs_filter[where p = ?paid and amount = amount and vs = vs] assms(2) by linarith
  then have c: "collected vs = Finite (of_int ?c)"
    using assms(1) unfolding collected_def by (intro sum_fines_int) auto
  have "?t - ?c = (\<Sum>v\<leftarrow>filter (\<lambda>v. \<not> ?paid v) vs. amount v)"
    using sum_list_split_filter[where p = ?paid and amount = amount and vs = vs] by simp
  moreover have "\<bar>\<Sum>v\<leftarrow>filter (\<lambda>v. \<not> ?paid v) vs. amount v\<bar> \<le> 2 ^ 53"
    using sum_list_abs_le[where amount = amount and vs = "filter (\<lambda>v. \<not> ?paid v) vs"]
      sum_list_abs_filter[where p = "\<lambda>v. \<not> ?paid v" and amount = amount and vs = vs] assms(2) by linarith
  ultimately have b: "\<bar>?t - ?c\<bar> \<le> 2 ^ 53" by simp
  have p: "pending vs = Finite (of_int (?t - ?c))"
    using round_double_int[OF b] by (simp add: pending_def jssub_def t c)
  have "\<bar>?t\<bar> \<le> 2 ^ 53" using sum_list_abs_le[where amount = amount and vs = vs] assms(2) by linarith
  then have "round_double (of_int ?t) = Finite (of_int ?t)" by (rule round_double_int)
  then have s: "jsadd (collected vs) (pending vs) = total_amount vs" by (simp add: t c p)
  show ?thesis using t c p s by simp
qed

theorem totals_of_integer_fines_witness:
  "total_amount mock_violations = Finite 1800 \<and> collected mock_violations = Finite 800
   \<and> pending mock_violations = Finite 1000
   \<and> jsadd (collected mock_violations) (pending mock_violations) = total_amount mock_violations
   \<and> jseq (jsadd (collected mock_violations) (pending mock_violations)) (total_amount mock_violations)"
proof -
  have f: "\<forall>v \<in> set mock_violations. fine_amount v = Finite (of_int (mock_amount v))"
    by (simp add: mock_violations_def mock_amount_def)
  have b: "(\<Sum>v\<leftarrow>mock_violations. \<bar>mock_amount v\<bar>) \<le> 2 ^ 53"
    by (simp add: mock_violations_def mock_amount_def)
  have sums: "(\<Sum>v\<leftarrow>mock_violations. mock_amount v) = 1800"
    "(\<Sum>v\<leftarrow>filter (\<lambda>v. status v = ''paid'') mock_violations. mock_amount v) = 800"
    by (simp_all add: mock_violations_def mock_amount_def)
  note th = totals_of_integer_fines[OF f b, unfolded sums]
  have 1: "total_amount mock_violations = Finite 1800" using th by simp
  have 2: "collected mock_violations = Finite 800" using th by simp
  have 3: "pending mock_violations = Finite 1000" using th by simp
  have 4: "jsadd (collected mock_violations) (pending mock_violations) = total_amount mock_violations"
    using th by blast
  have 5: "jseq (jsadd (collected mock_violations) (pending mock_violations)) (total_amount mock_violations)"
    using th by blast
  show ?thesis using 1 2 3 4 5 by blast
qed

lemma parse_examples:
  "parseFloat ''270.20'' = round_double (1351 / 5)"
  "parseFloat ''580.79'' = round_double (58079 / 100)"
  "parseFloat ''59.90'' = round_double (599 / 10)"
  by (simp_all add: parseFloat_def decimal_literal_def unsigned_decimal_def exponent_part_def
      digits_val_def digit_val_def is_digit_def is_space_def)

lemma round_examples:
  "round_double (1351 / 5) = Finite (4753408669201203 / 17592186044416)"
  "round_double (58079 / 100) = Finite (638585358296023 / 1099511627776)"
  "round_double (599 / 10) = Finite (8430175552484147 / 140737488355328)"
  "round_double (4753408669201203 / 17592186044416) = Finite (4753408669201203 / 17592186044416)"
  "round_double (14970774401937571 / 17592186044416) = Finite (3742693600484393 / 4398046511104)"
  "round_double (128196370767984723 / 140737488355328) = Finite (8012273172999045 / 8796093022208)"
  "round_double (11271137676796887 / 17592186044416) = Finite (1408892209599611 / 2199023255552)"
  "round_double (16024546345998091 / 17592186044416) = Finite (4006136586499523 / 4398046511104)"
  by code_simp+

lemma decimal_fines_values:
  "total_amount decimal_fines = Finite (8012273172999045 / 8796093022208)"
  "collected decimal_fines = Finite (4753408669201203 / 17592186044416)"
  "pending decimal_fines = Finite (1408892209599611 / 2199023255552)"
  by (simp_all add: decimal_fines_def total_amount_def collected_def pending_def jssub_def sum_fines_def
      mock_violations_def parse_examples round_examples)

text \<open>
  Claim C2 as stated fails: JavaScript adds doubles. For the fines 270.20 (paid), 580.79
  and 59.90 (unpaid), the collected and the pending amount add up to
  910.8900000000001, which is not the total 910.89.
\<close>

theorem totals_identity_fails_for_decimal_fines:
  "jsadd (collected decimal_fines) (pending decimal_fines) \<noteq> total_amount decimal_fines
   \<and> \<not> jseq (jsadd (collected decimal_fines) (pending decimal_fines)) (total_amount decimal_fines)"
  by (simp add: decimal_fines_values round_examples)

section \<open>Counting keys\<close>


lemma first_occurrences_set [simp]: "set (first_occurrences ks) = set ks"
  by (simp add: first_occurrences_def)

lemma first_occurrences_distinct [simp]: "distinct (first_occurrences ks)"
  by (simp add: first_occurrences_def)






section \<open>Percentages\<close>



section \<open>The breakdowns by area and by type\<close>




















section \<open>The scenarios of the specification\<close>

lemma mock_totals:
  "total_amount mock_violations = Finite 1800" "collected mock_violations = Finite 800"
  "pending mock_violations = Finite 1000"
proof -
  have f: "\<forall>v \<in> set mock_violations. fine_amount v = Finite (of_int (mock_amount v))"
    by (simp add: mock_violations_def mock_amount_def)
  have b: "(\<Sum>v\<leftarrow>mock_violations. \<bar>mock_amount v\<bar>) \<le> 2 ^ 53"
    by (simp add: mock_violations_def mock_amount_def)
  have t: "sum_fines mock_violations = Finite (of_int (\<Sum>v\<leftarrow>mock_violations. mock_amount v))"
    using f b by (rule sum_fines_int)
  then show 1: "total_amount mock_violations = Finite 1800"
    by (simp add: total_amount_def mock_violations_def mock_amount_def)
  have "sum_fines (filter (\<lambda>v. status v = ''paid'') mock_violations)
        = Finite (of_int (\<Sum>v\<leftarrow>filter (\<lambda>v. status v = ''paid'') mock_violations. mock_amount v))"
    by (rule sum_fines_int) (simp_all add: mock_violations_def mock_amount_def)
  then show 2: "collected mock_violations = Finite 800"
    by (simp add: collected_def mock_violations_def mock_amount_def)
  have "round_double 1000 = Finite 1000" using round_double_int[of 1000] by simp
  then show "pending mock_violations = Finite 1000" by (simp add: pending_def jssub_def 1 2)
qed

lemma round_scenario:
  "round_double (4 / 9) = Finite (2001599834386887 / 4503599627370496)"
  "round_double (50039995859672175 / 1125899906842624) = Finite (3127499741229511 / 70368744177664)"
  "round_double 600 = Finite 600"
  by code_simp+

text \<open>
  The first end-to-end scenario of the specification, on the mock data of
  \<open>loadViolations\<close>: three records with the fines 500 (paid), 1000 (unpaid) and 300
  (paid) give the count 3, the total 1800, the collected amount 800, the pending amount
  1000, the collection rate \<open>44.4\<close> and the average fine \<open>600.00\<close>.
\<close>

theorem scenario_totals:
  "length mock_violations = 3
   \<and> total_amount mock_violations = Finite 1800
   \<and> collected mock_violations = Finite 800
   \<and> pending mock_violations = Finite 1000
   \<and> collectionRate mock_violations = FixedString (StrDecimal False 444 1)
   \<and> avgFine mock_violations = FixedString (StrDecimal False 60000 2)"
proof -
  have len: "length mock_violations = 3" by (simp add: mock_violations_def)
  have fl: "\<lfloor>(3127499741229511 :: rat) * 10 / 70368744177664 + 1 / 2\<rfloor> = 444"
    by (rule floor_unique) simp_all
  have rate: "collectionRate mock_violations = FixedString (StrDecimal False 444 1)"
    using fl by (simp add: collectionRate_def mock_totals round_scenario)
  have fl2: "\<lfloor>(120001 :: rat) / 2\<rfloor> = 60000" by (rule floor_unique) simp_all
  have avg: "avgFine mock_violations = FixedString (StrDecimal False 60000 2)"
    using fl2 by (simp add: avgFine_def mock_totals round_scenario len)
  show ?thesis using len mock_totals rate avg by simp
qed

text \<open>
  The second scenario: after \<open>markAsPaid\<close> on the unpaid record, confirmed by the user,
  that record is paid, the collected amount is 1800 and the pending amount is 0.
\<close>

theorem scenario_markAsPaid:
  "map status (violations (markAsPaid True 2 mock_state)) = [''paid'', ''paid'', ''paid'']
   \<and> total_amount (violations (markAsPaid True 2 mock_state)) = Finite 1800
   \<and> collected (violations (markAsPaid True 2 mock_state)) = Finite 1800
   \<and> pending (violations (markAsPaid True 2 mock_state)) = Finite 0"
proof -
  let ?vs = "violations (markAsPaid True 2 mock_state)"
  have vs: "?vs = [mock_violations ! 0, (mock_violations ! 1)\<lparr>status := ''paid''\<rparr>,
                   mock_violations ! 2]"
    using markAsPaid_found(1)[OF mock_find2] by (simp add: mock_state_def mock_violations_def)
  have f: "\<forall>v \<in> set ?vs. fine_amount v = Finite (of_int (mock_amount v))"
    by (simp add: vs mock_violations_def mock_amount_def)
  have b: "(\<Sum>v\<leftarrow>?vs. \<bar>mock_amount v\<bar>) \<le> 2 ^ 53"
    by (simp add: vs mock_violations_def mock_amount_def)
  have t: "sum_fines ?vs = Finite (of_int (\<Sum>v\<leftarrow>?vs. mock_amount v))"
    using f b by (rule sum_fines_int)
  have paid: "filter (\<lambda>v. status v = ''paid'') ?vs = ?vs"
    by (simp add: vs mock_violations_def)
  have s: "(\<Sum>v\<leftarrow>?vs. mock_amount v) = 1800"
    by (simp add: vs mock_violations_def mock_amount_def)
  have 1: "total_amount ?vs = Finite 1800" using t s by (simp add: total_amount_def)
  have 2: "collected ?vs = Finite 1800" using t s by (simp add: collected_def paid)
  have 3: "pending ?vs = Finite 0"
    by (simp add: pending_def jssub_def 1 2 round_double_0)
  have 4: "map status ?vs = [''paid'', ''paid'', ''paid'']"
    by (simp add: vs mock_violations_def)
  show ?thesis using 1 2 3 4 by simp
qed

section \<open>The fine amount is not looked up at registration\<close>






end
